theory Spec2Isabelle
  imports Complex_Main "HOL-Library.Multiset" "HOL-Library.Char_ord" "HOL-Library.List_Lexorder"
begin

section \<open>Values shared by the four scripts\<close>

text \<open>
  The four scripts under \<open>src/python\<close> are command-line programs.  Each \<open>main\<close> is
  embedded as a function from what the process receives (its argument vector and the
  answers of the collaborators it calls) to what the process leaves behind: the JSON
  documents printed on standard output, the lines printed on standard error, the
  artifacts written, and either an exit code or the exception that escaped \<open>main\<close>.

  A Python \<open>str\<close> is a \<open>string\<close> holding its UTF-8 bytes; the lexicographic order
  on these bytes is the code-point order Python's \<open>sorted\<close> uses.  A Python \<open>float\<close>
  is the real number it denotes (finite values only); the scripts copy, compare and
  round such values and do no other arithmetic on them.
\<close>

datatype py_error = IndexError | KeyError | ValueError | CollaboratorError

datatype json =
    JNull
  | JBool bool
  | JInt int
  | JFloat real
  | JStr string
  | JArr "json list"
  | JObj "(string \<times> json) list"

text \<open>
  The fitted classifier is an object of the classifier library: the scripts only read
  its \<open>classes_\<close> attribute and call \<open>predict_proba\<close> on a batch of vectors.
\<close>

record ('l, 'v) classifier =
  classes :: "'l list"
  predict_proba :: "'v list \<Rightarrow> real list list option"

text \<open>
  The pickled artifact is a dictionary with the keys \<open>embedder_name\<close>, \<open>classifier\<close>
  and (router only) \<open>label_list\<close>; a field is \<open>None\<close> when the key is not in the
  dictionary.
\<close>

record ('l, 'v) artifact =
  embedder_name :: "string option"
  classifier :: "('l, 'v) classifier option"
  label_list :: "string list option"

record ('l, 'v) run =
  stdout :: "json list"
  stderr :: "string list"
  written :: "(string \<times> ('l, 'v) artifact) list"
  status :: "py_error + int"

definition uncaught :: "py_error \<Rightarrow> ('l, 'v) run" where
  "uncaught e = \<lparr>stdout = [], stderr = [], written = [], status = Inl e\<rparr>"

definition exit_error :: "string \<Rightarrow> int \<Rightarrow> ('l, 'v) run" where
  "exit_error msg code = \<lparr>stdout = [], stderr = [msg], written = [], status = Inr code\<rparr>"

definition default_model :: string where
  "default_model = ''all-MiniLM-L6-v2''"

text \<open>\<open>xs[i]\<close> for a non-negative index: out of range raises \<open>IndexError\<close>.\<close>

definition py_get :: "'a list \<Rightarrow> nat \<Rightarrow> py_error + 'a" where
  "py_get xs i = (if i < length xs then Inr (xs ! i) else Inl IndexError)"

text \<open>\<open>x or ""\<close> on the result of \<open>row.get(key)\<close>: a missing key, \<open>null\<close> and the
  empty string all give the alternative.\<close>

definition or_else :: "string option \<Rightarrow> string \<Rightarrow> string" where
  "or_else v d = (case v of None \<Rightarrow> d | Some s \<Rightarrow> if s = [] then d else s)"

definition str_bool :: "bool \<Rightarrow> string" where
  "str_bool b = (if b then ''True'' else ''False'')"

definition digit_char :: "nat \<Rightarrow> char" where
  "digit_char d = char_of (48 + d)"

function str_nat :: "nat \<Rightarrow> string" where
  "str_nat n = (if n < 10 then [digit_char n] else str_nat (n div 10) @ [digit_char (n mod 10)])"
  by pat_completeness auto
termination
  by (relation "measure id") auto

declare str_nat.simps [simp del]

text \<open>
  What a training script receives from outside: the parsed JSON file at a path (\<open>None\<close>
  when opening or parsing raises), the message of the \<open>ImportError\<close> if a dependency
  is missing, the environment variable \<open>EMBEDDING_MODEL\<close>, the two collaborators
  (\<open>None\<close> when the call raises), and whether opening the output path for writing
  and pickling the artifact into it go through (when they do not, the exception
  escapes \<open>main\<close> before the result is printed).
\<close>

record ('row, 'l, 'v) train_env =
  read_json :: "string \<Rightarrow> 'row list option"
  import_error :: "string option"
  embedding_model :: "string option"
  encode :: "string \<Rightarrow> string list \<Rightarrow> 'v list option"
  fit :: "'v list \<Rightarrow> 'l list \<Rightarrow> ('l, 'v) classifier option"
  write_pickle :: "string \<Rightarrow> bool"

section \<open>train\_important.py\<close>

text \<open>
  A sample \<open>{"text": "...", "important": true/false}\<close>, with the field types of the
  script's docstring; \<open>None\<close> is a missing key or \<open>null\<close>, for which \<open>row.get\<close>
  returns Python's \<open>None\<close>.
\<close>

record imp_row =
  imp_text :: "string option"
  important :: "bool option"

definition py_bool :: "bool option \<Rightarrow> bool" where
  "py_bool v = (case v of None \<Rightarrow> False | Some b \<Rightarrow> b)"

definition train_important_main ::
  "(imp_row, bool, 'v) train_env \<Rightarrow> string list \<Rightarrow> (bool, 'v) run" where
  "train_important_main env argv =
    (if length argv < 2 then
       exit_error ''Usage: train_important.py <data.json> [output.pkl]'' 1
     else case py_get argv 1 of Inl e \<Rightarrow> uncaught e | Inr data_path \<Rightarrow>
     (case read_json env data_path of None \<Rightarrow> uncaught CollaboratorError | Some data \<Rightarrow>
       if data = [] then exit_error ''No samples'' 1
       else (case import_error env of
         Some e \<Rightarrow>
           exit_error (''Import error: '' @ e @ ''. Install sentence-transformers scikit-learn'') 2
       | None \<Rightarrow>
         let texts = map (\<lambda>row. or_else (imp_text row) []) data;
             labels = map (\<lambda>row. py_bool (important row)) data
         in
         if card (set labels) < 2 then
           (case py_get labels 0 of Inl e \<Rightarrow> uncaught e | Inr l0 \<Rightarrow>
             \<lparr>stdout = [JObj [(''samples'', JInt (int (length data))),
                              (''skipped'', JBool True),
                              (''reason'', JStr (''Need both True and False labels to train, got only ''
                                                 @ str_bool l0))]],
              stderr = [], written = [], status = Inr 0\<rparr>)
         else
           let model_name = (case embedding_model env of None \<Rightarrow> default_model | Some m \<Rightarrow> m) in
           (case encode env model_name texts of None \<Rightarrow> uncaught CollaboratorError | Some X \<Rightarrow>
           (case fit env X labels of None \<Rightarrow> uncaught CollaboratorError | Some clf \<Rightarrow>
           (case (if length argv > 2 then py_get argv 2 else Inr ''./important_model.pkl'') of
              Inl e \<Rightarrow> uncaught e
            | Inr out_path \<Rightarrow>
             if \<not> write_pickle env out_path then uncaught CollaboratorError
             else
             \<lparr>stdout = [JObj [(''samples'', JInt (int (length data))),
                              (''path'', JStr out_path)]],
              stderr = [],
              written = [(out_path, \<lparr>embedder_name = Some model_name,
                                     classifier = Some clf,
                                     label_list = None\<rparr>)],
              status = Inr 0\<rparr>))))))"

section \<open>train\_label\_router.py\<close>

text \<open>
  A sample \<open>{"text": "...", "target_label": "..."}\<close>, with the field types of the
  script's docstring; \<open>None\<close> is a missing key or \<open>null\<close>.
\<close>

record router_row =
  router_text :: "string option"
  target_label :: "string option"

text \<open>\<open>targets = [row.get("target_label") or "other" for row in data]\<close>\<close>

definition router_targets :: "router_row list \<Rightarrow> string list" where
  "router_targets data = map (\<lambda>row. or_else (target_label row) ''other'') data"

text \<open>\<open>label_list = sorted(set(targets))\<close>\<close>

definition router_label_list :: "router_row list \<Rightarrow> string list" where
  "router_label_list data = sorted_list_of_set (set (router_targets data))"

definition train_label_router_main ::
  "(router_row, string, 'v) train_env \<Rightarrow> string list \<Rightarrow> (string, 'v) run" where
  "train_label_router_main env argv =
    (if length argv < 2 then
       exit_error ''Usage: train_label_router.py <data.json> [output.pkl]'' 1
     else case py_get argv 1 of Inl e \<Rightarrow> uncaught e | Inr data_path \<Rightarrow>
     (case read_json env data_path of None \<Rightarrow> uncaught CollaboratorError | Some data \<Rightarrow>
       if data = [] then exit_error ''No samples'' 1
       else (case import_error env of
         Some e \<Rightarrow>
           exit_error (''Import error: '' @ e @ ''. Install sentence-transformers scikit-learn'') 2
       | None \<Rightarrow>
         let texts = map (\<lambda>row. or_else (router_text row) []) data;
             targets = router_targets data;
             catalog = router_label_list data
         in
         if length catalog < 2 then
           \<lparr>stdout = [JObj [(''samples'', JInt (int (length data))),
                            (''labels'', JInt (int (length catalog))),
                            (''skipped'', JBool True),
                            (''reason'', JStr (''Need at least 2 distinct labels to train, got ''
                                               @ str_nat (length catalog)))]],
            stderr = [], written = [], status = Inr 0\<rparr>
         else
           let model_name = (case embedding_model env of None \<Rightarrow> default_model | Some m \<Rightarrow> m) in
           (case encode env model_name texts of None \<Rightarrow> uncaught CollaboratorError | Some X \<Rightarrow>
           (case fit env X targets of None \<Rightarrow> uncaught CollaboratorError | Some clf \<Rightarrow>
           (case (if length argv > 2 then py_get argv 2 else Inr ''./label_router_model.pkl'') of
              Inl e \<Rightarrow> uncaught e
            | Inr out_path \<Rightarrow>
             if \<not> write_pickle env out_path then uncaught CollaboratorError
             else
             \<lparr>stdout = [JObj [(''samples'', JInt (int (length data))),
                              (''labels'', JInt (int (length catalog))),
                              (''path'', JStr out_path)]],
              stderr = [],
              written = [(out_path, \<lparr>embedder_name = Some model_name,
                                     classifier = Some clf,
                                     label_list = Some catalog\<rparr>)],
              status = Inr 0\<rparr>))))))"

section \<open>infer\_important.py\<close>

text \<open>
  What an inference script receives from outside: the unpickled artifact at a path
  (\<open>None\<close> when opening or unpickling raises), the message of the \<open>ImportError\<close> if a
  dependency is missing, and the embedding provider, selected by model name.
\<close>

record ('l, 'v) infer_env =
  load_pickle :: "string \<Rightarrow> ('l, 'v) artifact option"
  infer_import_error :: "string option"
  embed :: "string \<Rightarrow> string list \<Rightarrow> 'v list option"

text \<open>
  Python's \<open>round(x, n)\<close> on a float rounds the exact value of \<open>x\<close> to the nearest
  multiple of \<open>10\<^sup>-\<^sup>n\<close>, a tie going to the even multiple; \<open>json.dumps\<close> then prints
  that decimal.
\<close>

definition round_half_even :: "real \<Rightarrow> int" where
  "round_half_even x =
     (let f = \<lfloor>x\<rfloor>; d = x - of_int f
      in if d < 1 / 2 then f
         else if 1 / 2 < d then f + 1
         else if even f then f else f + 1)"

definition py_round :: "real \<Rightarrow> nat \<Rightarrow> real" where
  "py_round x n = of_int (round_half_even (x * 10 ^ n)) / 10 ^ n"

text \<open>\<open>p_important = float(proba[1]) if len(proba) > 1 else float(proba[0])\<close>\<close>

definition p_important_of :: "real list \<Rightarrow> py_error + real" where
  "p_important_of proba = (if length proba > 1 then py_get proba 1 else py_get proba 0)"

definition infer_important_main ::
  "(bool, 'v) infer_env \<Rightarrow> string list \<Rightarrow> (bool, 'v) run" where
  "infer_important_main env argv =
    (if length argv < 3 then exit_error ''Usage: infer_important.py <model.pkl> <text>'' 1
     else case py_get argv 1 of Inl e \<Rightarrow> uncaught e | Inr model_path \<Rightarrow>
     (case py_get argv 2 of Inl e \<Rightarrow> uncaught e | Inr txt \<Rightarrow>
     (case infer_import_error env of Some e \<Rightarrow> exit_error (''Import error: '' @ e) 2 | None \<Rightarrow>
     (case load_pickle env model_path of None \<Rightarrow> uncaught CollaboratorError | Some art \<Rightarrow>
       let name = (case embedder_name art of None \<Rightarrow> default_model | Some n \<Rightarrow> n) in
       (case classifier art of None \<Rightarrow> uncaught KeyError | Some clf \<Rightarrow>
       (case embed env name [txt] of None \<Rightarrow> uncaught CollaboratorError | Some embedding \<Rightarrow>
       (case predict_proba clf embedding of None \<Rightarrow> uncaught CollaboratorError | Some probas \<Rightarrow>
       (case py_get probas 0 of Inl e \<Rightarrow> uncaught e | Inr proba \<Rightarrow>
       (case p_important_of proba of Inl e \<Rightarrow> uncaught e | Inr p \<Rightarrow>
         \<lparr>stdout = [JObj [(''important'', JBool (1 / 2 \<le> p)),
                          (''probability'', JFloat (py_round p 4))]],
          stderr = [], written = [], status = Inr 0\<rparr>)))))))))"

section \<open>infer\_label\_router.py\<close>

text \<open>\<open>classes.index(label)\<close>: the first position, \<open>ValueError\<close> when there is none.\<close>

fun py_index :: "'a list \<Rightarrow> 'a \<Rightarrow> py_error + nat" where
  "py_index [] x = Inl ValueError"
| "py_index (y # ys) x =
     (if y = x then Inr 0
      else case py_index ys x of Inl e \<Rightarrow> Inl e | Inr i \<Rightarrow> Inr (Suc i))"

text \<open>\<open>d[k] = v\<close> on a dictionary, which keeps its keys in insertion order: a key already
  there keeps its place and takes the new value.\<close>

fun dict_set :: "('k \<times> 'a) list \<Rightarrow> 'k \<Rightarrow> 'a \<Rightarrow> ('k \<times> 'a) list" where
  "dict_set [] k v = [(k, v)]"
| "dict_set ((k', v') # d) k v =
     (if k' = k then (k, v) # d else (k', v') # dict_set d k v)"

text \<open>The loop over \<open>label_list\<close> that fills \<open>head_weights\<close>.\<close>

fun head_weights_loop ::
  "string list \<Rightarrow> real list \<Rightarrow> string list \<Rightarrow> (string \<times> real) list
     \<Rightarrow> py_error + (string \<times> real) list" where
  "head_weights_loop cls proba [] head_weights = Inr head_weights"
| "head_weights_loop cls proba (label # rest) head_weights =
     (if label \<in> set cls then
        (case py_index cls label of Inl e \<Rightarrow> Inl e | Inr idx \<Rightarrow>
        (case py_get proba idx of Inl e \<Rightarrow> Inl e | Inr w \<Rightarrow>
           head_weights_loop cls proba rest (dict_set head_weights label w)))
      else head_weights_loop cls proba rest (dict_set head_weights label 0))"

definition infer_label_router_main ::
  "(string, 'v) infer_env \<Rightarrow> string list \<Rightarrow> (string, 'v) run" where
  "infer_label_router_main env argv =
    (if length argv < 3 then exit_error ''Usage: infer_label_router.py <model.pkl> <text>'' 1
     else case py_get argv 1 of Inl e \<Rightarrow> uncaught e | Inr model_path \<Rightarrow>
     (case py_get argv 2 of Inl e \<Rightarrow> uncaught e | Inr txt \<Rightarrow>
     (case infer_import_error env of Some e \<Rightarrow> exit_error (''Import error: '' @ e) 2 | None \<Rightarrow>
     (case load_pickle env model_path of None \<Rightarrow> uncaught CollaboratorError | Some art \<Rightarrow>
       let name = (case embedder_name art of None \<Rightarrow> default_model | Some n \<Rightarrow> n) in
       (case classifier art of None \<Rightarrow> uncaught KeyError | Some clf \<Rightarrow>
       (case label_list art of None \<Rightarrow> uncaught KeyError | Some catalog \<Rightarrow>
       (case embed env name [txt] of None \<Rightarrow> uncaught CollaboratorError | Some embedding \<Rightarrow>
       (case predict_proba clf embedding of None \<Rightarrow> uncaught CollaboratorError | Some probas \<Rightarrow>
       (case py_get probas 0 of Inl e \<Rightarrow> uncaught e | Inr proba \<Rightarrow>
       (case head_weights_loop (classes clf) proba catalog [] of
          Inl e \<Rightarrow> uncaught e
        | Inr head_weights \<Rightarrow>
         \<lparr>stdout = [JObj [(''head_weights'', JObj (map (\<lambda>(k, w). (k, JFloat w)) head_weights)),
                          (''label_list'', JArr (map JStr catalog))]],
          stderr = [], written = [], status = Inr 0\<rparr>))))))))))"

text \<open>
  The weight the loop stores for one label, as a function of the label alone: the
  probability at the label's first position in the class list, \<open>0\<close> when it has none.
\<close>

definition weight_of :: "string list \<Rightarrow> real list \<Rightarrow> string \<Rightarrow> real" where
  "weight_of cls proba label = (case py_index cls label of Inl e \<Rightarrow> 0 | Inr idx \<Rightarrow> proba ! idx)"

section \<open>Sample collaborators\<close>

text \<open>
  Concrete collaborators on which the scripts are run below: a data file
  \<open>data.json\<close>, an embedding provider that knows every model name (training) or only
  the default one (inference), a \<open>fit\<close> that records the sorted distinct labels it was
  given, an output path that can always be written, and a classifier that answers every
  vector with one fixed probability vector.
\<close>

definition demo_train_env :: "'row list \<Rightarrow> ('row, 'l::linorder, real list) train_env" where
  "demo_train_env data =
     \<lparr>read_json = (\<lambda>p. if p = ''data.json'' then Some data else None),
      import_error = None,
      embedding_model = None,
      encode = (\<lambda>m ts. Some (map (\<lambda>t. [real (length t)]) ts)),
      fit = (\<lambda>X y. Some \<lparr>classes = sort (remdups y), predict_proba = (\<lambda>vs. None)\<rparr>),
      write_pickle = (\<lambda>p. True)\<rparr>"

definition demo_classifier :: "'l list \<Rightarrow> real list \<Rightarrow> ('l, real list) classifier" where
  "demo_classifier cs p = \<lparr>classes = cs, predict_proba = (\<lambda>vs. Some (map (\<lambda>v. p) vs))\<rparr>"

definition demo_infer_env :: "('l, real list) artifact \<Rightarrow> ('l, real list) infer_env" where
  "demo_infer_env art =
     \<lparr>load_pickle = (\<lambda>p. if p = ''model.pkl'' then Some art else None),
      infer_import_error = None,
      embed = (\<lambda>m ts. if m = default_model then Some (map (\<lambda>t. [real (length t)]) ts)
                       else None)\<rparr>"

definition demo_router_artifact :: "(string, real list) artifact" where
  "demo_router_artifact =
     \<lparr>embedder_name = Some default_model,
      classifier = Some (demo_classifier [''a'', ''c''] [9 / 10, 1 / 10]),
      label_list = Some [''a'', ''b'', ''c'']\<rparr>"

definition demo_importance_artifact :: "real list \<Rightarrow> (bool, real list) artifact" where
  "demo_importance_artifact p =
     \<lparr>embedder_name = Some default_model,
      classifier = Some (demo_classifier [False, True] p),
      label_list = None\<rparr>"

definition all_important :: "imp_row list" where
  "all_important =
     [\<lparr>imp_text = Some ''invoice due'', important = Some True\<rparr>,
      \<lparr>imp_text = Some ''server down'', important = Some True\<rparr>,
      \<lparr>imp_text = None, important = Some True\<rparr>]"

definition unflagged_rows :: "imp_row list" where
  "unflagged_rows =
     [\<lparr>imp_text = Some ''weekly digest'', important = None\<rparr>,
      \<lparr>imp_text = None, important = Some False\<rparr>]"

definition same_label_rows :: "router_row list" where
  "same_label_rows =
     [\<lparr>router_text = Some ''first'', target_label = Some ''x''\<rparr>,
      \<lparr>router_text = Some ''second'', target_label = Some ''x''\<rparr>]"

definition demo_router_rows :: "router_row list" where
  "demo_router_rows =
     [\<lparr>router_text = Some ''refund please'', target_label = Some ''billing''\<rparr>,
      \<lparr>router_text = Some ''cannot log in'', target_label = Some ''auth''\<rparr>,
      \<lparr>router_text = Some ''button is hidden'', target_label = Some ''ui''\<rparr>]"

definition demo_router_rows_permuted :: "router_row list" where
  "demo_router_rows_permuted =
     [\<lparr>router_text = Some ''button is hidden'', target_label = Some ''ui''\<rparr>,
      \<lparr>router_text = Some ''refund please'', target_label = Some ''billing''\<rparr>,
      \<lparr>router_text = Some ''cannot log in'', target_label = Some ''auth''\<rparr>]"

definition demo_nameless_artifact :: "(bool, real list) artifact" where
  "demo_nameless_artifact =
     \<lparr>embedder_name = None,
      classifier = Some (demo_classifier [False, True] [3 / 10, 7 / 10]),
      label_list = None\<rparr>"

definition demo_headless_artifact :: "('l, real list) artifact" where
  "demo_headless_artifact =
     \<lparr>embedder_name = Some default_model,
      classifier = None,
      label_list = Some [''a'', ''b'', ''c'']\<rparr>"

definition demo_nameless_router_artifact :: "(string, real list) artifact" where
  "demo_nameless_router_artifact =
     \<lparr>embedder_name = None,
      classifier = Some (demo_classifier [''a'', ''c''] [9 / 10, 1 / 10]),
      label_list = Some [''a'', ''b'', ''c'']\<rparr>"

section \<open>Facts about the shared operations\<close>

lemma card_set_bool_lt2:
  assumes "xs \<noteq> []" "card (set xs) < 2"
  shows "set xs = {hd xs}"
proof -
  have "hd xs \<in> set xs" using assms(1) by simp
  moreover have "card (set xs) \<le> 1" using assms(2) by simp
  ultimately show ?thesis
    by (metis List.finite_set card_le_Suc0_iff_eq One_nat_def empty_iff insertI1 is_singletonI' is_singleton_the_elem singletonD)
qed

lemma py_get_0: "xs \<noteq> [] \<Longrightarrow> py_get xs 0 = Inr (hd xs)"
  by (cases xs) (simp_all add: py_get_def)

lemma status_uncaught: "status (uncaught e) = Inl e"
  by (simp add: uncaught_def)

lemma status_exit_error: "status (exit_error m c) = Inr c"
  by (simp add: exit_error_def)

section \<open>Router inference: alignment of the weights with the catalog\<close>

lemma py_index_member:
  "x \<in> set xs \<Longrightarrow>
     \<exists>i. py_index xs x = Inr i \<and> i < length xs \<and> xs ! i = x \<and> x \<notin> set (take i xs)"
proof (induction xs)
  case Nil
  then show ?case by simp
next
  case (Cons y ys)
  show ?case
  proof (cases "y = x")
    case True
    then show ?thesis by simp
  next
    case False
    with Cons.prems have "x \<in> set ys" by simp
    from Cons.IH [OF this] obtain i where
      "py_index ys x = Inr i" "i < length ys" "ys ! i = x" "x \<notin> set (take i ys)"
      by blast
    with False show ?thesis by simp
  qed
qed

lemma py_index_absent: "x \<notin> set xs \<Longrightarrow> py_index xs x = Inl ValueError"
  by (induction xs) auto

lemma py_index_first:
  "i < length xs \<Longrightarrow> xs ! i \<notin> set (take i xs) \<Longrightarrow> py_index xs (xs ! i) = Inr i"
proof (induction xs arbitrary: i)
  case Nil
  then show ?case by simp
next
  case (Cons y ys)
  show ?case
  proof (cases i)
    case 0
    then show ?thesis by simp
  next
    case (Suc j)
    with Cons.prems have "j < length ys" "ys ! j \<notin> set (take j ys)" "y \<noteq> ys ! j"
      by auto
    with Cons.IH [of j] Suc show ?thesis by simp
  qed
qed

lemma head_weights_loop_fold:
  assumes "length proba = length cls"
  shows "head_weights_loop cls proba ls acc =
           Inr (foldl (\<lambda>d l. dict_set d l (weight_of cls proba l)) acc ls)"
proof (induction ls arbitrary: acc)
  case Nil
  show ?case by simp
next
  case (Cons l ls)
  show ?case
  proof (cases "l \<in> set cls")
    case True
    from py_index_member [OF True] obtain i where
      i: "py_index cls l = Inr i" "i < length cls" by blast
    with assms have "py_get proba i = Inr (proba ! i)" by (simp add: py_get_def)
    with True i Cons.IH show ?thesis by (simp add: weight_of_def)
  next
    case False
    with py_index_absent [OF False] Cons.IH show ?thesis by (simp add: weight_of_def)
  qed
qed

lemma keys_dict_set:
  "map fst (dict_set d k v) = (if k \<in> fst ` set d then map fst d else map fst d @ [k])"
  by (induction d) (force simp: image_iff)+

lemma map_of_dict_set: "map_of (dict_set d k v) = (map_of d)(k \<mapsto> v)"
  by (induction d) auto

lemma keys_fold_dict_set:
  "map fst (foldl (\<lambda>d l. dict_set d l (w l)) [] ls) = rev (remdups (rev ls))"
proof (induction ls rule: rev_induct)
  case Nil
  show ?case by simp
next
  case (snoc l ls)
  have "fst ` set (foldl (\<lambda>d l. dict_set d l (w l)) [] ls) = set ls"
    using snoc.IH by (metis set_map set_remdups set_rev)
  with snoc.IH show ?case by (simp add: keys_dict_set)
qed

lemma map_of_fold_dict_set:
  "l \<in> set ls \<Longrightarrow> map_of (foldl (\<lambda>d l. dict_set d l (w l)) [] ls) l = Some (w l)"
  by (induction ls rule: rev_induct) (auto simp: map_of_dict_set)

text \<open>
  Claim C1.  Whenever \<open>infer_label_router.py\<close> loads an artifact with catalog \<open>L\<close> and
  the classifier answers with a probability vector \<open>p\<close> as long as its class list
  \<open>C\<close>, the script prints \<open>head_weights\<close> and \<open>label_list\<close> and exits with code 0.  The
  keys of \<open>head_weights\<close> are the labels of \<open>L\<close>, each once, in the order of their first
  occurrence in \<open>L\<close> (so they are \<open>L\<close> itself when \<open>L\<close> has no repetition); a label
  that is not in \<open>C\<close> has weight \<open>0\<close>; a label of \<open>L\<close> whose first position in \<open>C\<close> is
  \<open>i\<close> has weight \<open>p ! i\<close>; and the printed \<open>label_list\<close> is \<open>L\<close>.
\<close>

theorem router_alignment_complete:
  assumes args: "3 \<le> length argv"
    and deps: "infer_import_error env = None"
    and loaded: "load_pickle env (argv ! 1) = Some art"
    and clf: "classifier art = Some clf"
    and cat: "label_list art = Some L"
    and emb: "embed env (case embedder_name art of None \<Rightarrow> default_model | Some n \<Rightarrow> n)
                [argv ! 2] = Some embedding"
    and pred: "predict_proba clf embedding = Some (p # others)"
    and len: "length p = length (classes clf)"
  shows "\<exists>hw.
    infer_label_router_main env argv =
      \<lparr>stdout = [JObj [(''head_weights'', JObj (map (\<lambda>(k, w). (k, JFloat w)) hw)),
                       (''label_list'', JArr (map JStr L))]],
       stderr = [], written = [], status = Inr 0\<rparr> \<and>
    distinct (map fst hw) \<and> set (map fst hw) = set L \<and>
    map fst hw = rev (remdups (rev L)) \<and>
    (distinct L \<longrightarrow> map fst hw = L) \<and>
    (\<forall>l \<in> set L. l \<notin> set (classes clf) \<longrightarrow> map_of hw l = Some 0) \<and>
    (\<forall>i < length (classes clf).
        classes clf ! i \<in> set L \<and> classes clf ! i \<notin> set (take i (classes clf)) \<longrightarrow>
        map_of hw (classes clf ! i) = Some (p ! i))"
proof -
  let ?w = "weight_of (classes clf) p"
  let ?hw = "foldl (\<lambda>d l. dict_set d l (?w l)) [] L"
  have arg1: "py_get argv 1 = Inr (argv ! 1)" and arg2: "py_get argv 2 = Inr (argv ! 2)"
    using args by (simp_all add: py_get_def)
  have loop: "head_weights_loop (classes clf) p L [] = Inr ?hw"
    using head_weights_loop_fold [OF len] .
  have run: "infer_label_router_main env argv =
      \<lparr>stdout = [JObj [(''head_weights'', JObj (map (\<lambda>(k, w). (k, JFloat w)) ?hw)),
                       (''label_list'', JArr (map JStr L))]],
       stderr = [], written = [], status = Inr 0\<rparr>"
    using args
    by (simp add: infer_label_router_main_def arg1 arg2 deps loaded clf cat emb pred loop
        py_get_def Let_def del: One_nat_def)
  have keys: "map fst ?hw = rev (remdups (rev L))"
    by (rule keys_fold_dict_set)
  have dist: "distinct (map fst ?hw)" and keyset: "set (map fst ?hw) = set L"
    by (simp_all only: keys distinct_rev distinct_remdups set_rev set_remdups)
  have inorder: "distinct L \<longrightarrow> map fst ?hw = L"
    by (simp add: keys distinct_remdups_id)
  have absent: "\<forall>l \<in> set L. l \<notin> set (classes clf) \<longrightarrow> map_of ?hw l = Some 0"
    by (simp add: map_of_fold_dict_set weight_of_def py_index_absent)
  have present: "\<forall>i < length (classes clf).
        classes clf ! i \<in> set L \<and> classes clf ! i \<notin> set (take i (classes clf)) \<longrightarrow>
        map_of ?hw (classes clf ! i) = Some (p ! i)"
    by (simp add: map_of_fold_dict_set weight_of_def py_index_first)
  from run dist keyset keys inorder absent present show ?thesis by blast
qed

theorem router_alignment_complete_witness:
  "infer_label_router_main (demo_infer_env demo_router_artifact)
     [''infer_label_router.py'', ''model.pkl'', ''reset my password''] =
   \<lparr>stdout = [JObj [(''head_weights'',
                     JObj [(''a'', JFloat (9 / 10)), (''b'', JFloat 0), (''c'', JFloat (1 / 10))]),
                    (''label_list'', JArr [JStr ''a'', JStr ''b'', JStr ''c''])]],
    stderr = [], written = [], status = Inr 0\<rparr>"
proof -
  let ?argv = "[''infer_label_router.py'', ''model.pkl'', ''reset my password'']"
  let ?env = "demo_infer_env demo_router_artifact :: (string, real list) infer_env"
  let ?clf = "demo_classifier [''a'', ''c''] [9 / 10, 1 / 10] :: (string, real list) classifier"
  have h1: "3 \<le> length ?argv" by simp
  have h2: "infer_import_error ?env = None" by (simp add: demo_infer_env_def)
  have h3: "load_pickle ?env (?argv ! 1) = Some demo_router_artifact"
    by (simp add: demo_infer_env_def)
  have h4: "classifier demo_router_artifact = Some ?clf"
    by (simp add: demo_router_artifact_def)
  have h5: "label_list demo_router_artifact = Some [''a'', ''b'', ''c'']"
    by (simp add: demo_router_artifact_def)
  have h6: "embed ?env (case embedder_name demo_router_artifact of
                          None \<Rightarrow> default_model | Some n \<Rightarrow> n) [?argv ! 2] = Some [[17]]"
    by (simp add: demo_infer_env_def demo_router_artifact_def)
  have h7: "predict_proba ?clf [[17]] = Some ([9 / 10, 1 / 10] # [])"
    by (simp add: demo_classifier_def)
  have h8: "length [9 / 10, 1 / 10 :: real] = length (classes ?clf)"
    by (simp add: demo_classifier_def)
  from router_alignment_complete [OF h1 h2 h3 h4 h5 h6 h7 h8] obtain hw where
    run: "infer_label_router_main ?env ?argv =
      \<lparr>stdout = [JObj [(''head_weights'', JObj (map (\<lambda>(k, w). (k, JFloat w)) hw)),
                       (''label_list'', JArr (map JStr [''a'', ''b'', ''c'']))]],
       stderr = [], written = [], status = Inr 0\<rparr>"
    and keys: "distinct [''a'', ''b'', ''c''] \<longrightarrow> map fst hw = [''a'', ''b'', ''c'']"
    and absent: "\<forall>l \<in> set [''a'', ''b'', ''c'']. l \<notin> set (classes ?clf) \<longrightarrow> map_of hw l = Some 0"
    and present: "\<forall>i < length (classes ?clf).
        classes ?clf ! i \<in> set [''a'', ''b'', ''c''] \<and> classes ?clf ! i \<notin> set (take i (classes ?clf)) \<longrightarrow>
        map_of hw (classes ?clf ! i) = Some ([9 / 10, 1 / 10] ! i)"
    by (elim exE conjE) (rule that, assumption+)
  from keys have k: "map fst hw = [''a'', ''b'', ''c'']" by simp
  from absent have b: "map_of hw ''b'' = Some 0" by (simp add: demo_classifier_def)
  from present [rule_format, of 0] have a: "map_of hw ''a'' = Some (9 / 10)"
    by (simp add: demo_classifier_def)
  from present [rule_format, of 1] have c: "map_of hw ''c'' = Some (1 / 10)"
    by (simp add: demo_classifier_def)
  from k obtain x y z where hw: "hw = [(''a'', x), (''b'', y), (''c'', z)]"
    by (auto simp: map_eq_Cons_conv)
  with a b c have "hw = [(''a'', 9 / 10), (''b'', 0), (''c'', 1 / 10)]" by simp
  with run show ?thesis by simp
qed

section \<open>Importance training: the degenerate guard\<close>

text \<open>
  Claim C3.  When \<open>train_important.py\<close> is started with a data file that holds a
  non-empty sample list whose boolean labels have fewer than two distinct values, and
  its dependencies import, it prints \<open>{samples: N, skipped: true, reason: ...}\<close> where
  the reason ends with the one label \<open>b\<close> that occurs, writes no artifact and exits
  with code 0.
\<close>

theorem train_important_degenerate_skipped:
  assumes args: "2 \<le> length argv"
    and datafile: "read_json env (argv ! 1) = Some data"
    and nonempty: "data \<noteq> []"
    and deps: "import_error env = None"
    and degenerate: "card (set (map (\<lambda>row. py_bool (important row)) data)) < 2"
  shows "\<exists>b. set (map (\<lambda>row. py_bool (important row)) data) = {b} \<and>
    train_important_main env argv =
      \<lparr>stdout = [JObj [(''samples'', JInt (int (length data))),
                       (''skipped'', JBool True),
                       (''reason'', JStr (''Need both True and False labels to train, got only ''
                                          @ str_bool b))]],
       stderr = [], written = [], status = Inr 0\<rparr>"
proof -
  let ?labels = "map (\<lambda>row. py_bool (important row)) data"
  have ne: "?labels \<noteq> []" using nonempty by simp
  have single: "set ?labels = {hd ?labels}"
    using card_set_bool_lt2 [OF ne degenerate] .
  have get0: "py_get ?labels 0 = Inr (hd ?labels)"
    using py_get_0 [OF ne] .
  have arg1: "py_get argv 1 = Inr (argv ! 1)"
    using args by (simp add: py_get_def)
  have "train_important_main env argv =
      \<lparr>stdout = [JObj [(''samples'', JInt (int (length data))),
                       (''skipped'', JBool True),
                       (''reason'', JStr (''Need both True and False labels to train, got only ''
                                          @ str_bool (hd ?labels)))]],
       stderr = [], written = [], status = Inr 0\<rparr>"
    using args nonempty degenerate
    by (simp add: train_important_main_def arg1 datafile deps get0 Let_def del: One_nat_def)
  with single show ?thesis by blast
qed

theorem train_important_degenerate_skipped_witness:
  "train_important_main (demo_train_env all_important) [''train_important.py'', ''data.json''] =
     \<lparr>stdout = [JObj [(''samples'', JInt 3),
                      (''skipped'', JBool True),
                      (''reason'', JStr ''Need both True and False labels to train, got only True'')]],
      stderr = [], written = [], status = Inr 0\<rparr>"
proof -
  let ?argv = "[''train_important.py'', ''data.json'']"
  let ?env = "demo_train_env all_important :: (imp_row, bool, real list) train_env"
  let ?labels = "map (\<lambda>row. py_bool (important row)) all_important"
  have labels: "?labels = [True, True, True]"
    by (simp add: all_important_def py_bool_def)
  have h1: "2 \<le> length ?argv" by simp
  have h2: "read_json ?env (?argv ! 1) = Some all_important"
    by (simp add: demo_train_env_def)
  have h3: "all_important \<noteq> []" by (simp add: all_important_def)
  have h4: "import_error ?env = None" by (simp add: demo_train_env_def)
  have h5: "card (set ?labels) < 2" by (simp add: labels)
  from train_important_degenerate_skipped [OF h1 h2 h3 h4 h5] obtain b where
    b: "set ?labels = {b}"
    and run: "train_important_main ?env ?argv =
      \<lparr>stdout = [JObj [(''samples'', JInt (int (length all_important))),
                       (''skipped'', JBool True),
                       (''reason'', JStr (''Need both True and False labels to train, got only ''
                                          @ str_bool b))]],
       stderr = [], written = [], status = Inr 0\<rparr>"
    by blast
  from b have "b = True" by (simp add: labels)
  with run show ?thesis by (simp add: str_bool_def all_important_def)
qed

text \<open>
  Claim C10.  No run of \<open>train_important.py\<close> ends in an \<open>IndexError\<close>: the read
  \<open>labels[0]\<close> of the degenerate branch (and every read of \<open>sys.argv\<close>) is in bounds,
  because an empty sample list has already left the script with \<open>No samples\<close> and exit
  code 1; and on every non-empty sample list whose labels have fewer than two distinct
  values (once the dependencies import) \<open>labels[0]\<close> reads the label of the first sample
  and the run is the skipped result that names it.
\<close>

theorem train_important_no_index_error:
  "status (train_important_main env argv) \<noteq> Inl IndexError \<and>
   (2 \<le> length argv \<and> read_json env (argv ! 1) = Some [] \<longrightarrow>
      train_important_main env argv = exit_error ''No samples'' 1) \<and>
   (2 \<le> length argv \<and> read_json env (argv ! 1) = Some data \<and> data \<noteq> [] \<and>
    import_error env = None \<and>
    card (set (map (\<lambda>row. py_bool (important row)) data)) < 2 \<longrightarrow>
      py_get (map (\<lambda>row. py_bool (important row)) data) 0
        = Inr (py_bool (important (hd data))) \<and>
      train_important_main env argv =
        \<lparr>stdout = [JObj [(''samples'', JInt (int (length data))),
                         (''skipped'', JBool True),
                         (''reason'', JStr (''Need both True and False labels to train, got only ''
                                            @ str_bool (py_bool (important (hd data)))))]],
         stderr = [], written = [], status = Inr 0\<rparr>)"
proof (intro conjI impI)
  show "status (train_important_main env argv) \<noteq> Inl IndexError"
  proof (cases "length argv < 2")
    case True
    then show ?thesis by (simp add: train_important_main_def status_exit_error)
  next
    case False
    then have arg1: "py_get argv 1 = Inr (argv ! 1)" by (simp add: py_get_def)
    have arg2: "2 < length argv \<Longrightarrow> py_get argv 2 = Inr (argv ! 2)" by (simp add: py_get_def)
    show ?thesis
    proof (cases "read_json env (argv ! 1)")
      case None
      with False arg1 show ?thesis
        by (simp add: train_important_main_def status_uncaught del: One_nat_def)
    next
      case (Some rows)
      show ?thesis
      proof (cases "rows = []")
        case True
        with False arg1 Some show ?thesis
          by (simp add: train_important_main_def status_exit_error del: One_nat_def)
      next
        case ne: False
        then have get0: "py_get (map (\<lambda>row. py_bool (important row)) rows) 0
            = Inr (hd (map (\<lambda>row. py_bool (important row)) rows))"
          by (intro py_get_0) simp
        from False arg1 Some ne get0 arg2 show ?thesis
          by (auto simp: train_important_main_def status_exit_error status_uncaught Let_def
              split: option.splits simp del: One_nat_def)
      qed
    qed
  qed
next
  assume "2 \<le> length argv \<and> read_json env (argv ! 1) = Some []"
  then show "train_important_main env argv = exit_error ''No samples'' 1"
    by (simp add: train_important_main_def py_get_def del: One_nat_def)
next
  assume h: "2 \<le> length argv \<and> read_json env (argv ! 1) = Some data \<and> data \<noteq> [] \<and>
    import_error env = None \<and>
    card (set (map (\<lambda>row. py_bool (important row)) data)) < 2"
  then have ne: "map (\<lambda>row. py_bool (important row)) data \<noteq> []" by simp
  from h have first: "hd (map (\<lambda>row. py_bool (important row)) data)
      = py_bool (important (hd data))"
    by (simp add: hd_map)
  show get0: "py_get (map (\<lambda>row. py_bool (important row)) data) 0
      = Inr (py_bool (important (hd data)))"
    using py_get_0 [OF ne] first by simp
  from h have arg1: "py_get argv 1 = Inr (argv ! 1)"
    by (simp add: py_get_def)
  from h show "train_important_main env argv =
        \<lparr>stdout = [JObj [(''samples'', JInt (int (length data))),
                         (''skipped'', JBool True),
                         (''reason'', JStr (''Need both True and False labels to train, got only ''
                                            @ str_bool (py_bool (important (hd data)))))]],
         stderr = [], written = [], status = Inr 0\<rparr>"
    by (simp add: train_important_main_def arg1 get0 Let_def del: One_nat_def)
qed

theorem train_important_no_index_error_witness:
  "status (train_important_main (demo_train_env []) [''train_important.py'', ''data.json''])
     \<noteq> Inl IndexError \<and>
   train_important_main (demo_train_env []) [''train_important.py'', ''data.json'']
     = exit_error ''No samples'' 1 \<and>
   status (train_important_main (demo_train_env unflagged_rows)
             [''train_important.py'', ''data.json'']) \<noteq> Inl IndexError \<and>
   py_get (map (\<lambda>row. py_bool (important row)) unflagged_rows) 0 = Inr False \<and>
   train_important_main (demo_train_env unflagged_rows) [''train_important.py'', ''data.json''] =
     \<lparr>stdout = [JObj [(''samples'', JInt 2),
                      (''skipped'', JBool True),
                      (''reason'', JStr ''Need both True and False labels to train, got only False'')]],
      stderr = [], written = [], status = Inr 0\<rparr>"
proof -
  let ?argv = "[''train_important.py'', ''data.json'']"
  let ?blank = "demo_train_env [] :: (imp_row, bool, real list) train_env"
  let ?env = "demo_train_env unflagged_rows :: (imp_row, bool, real list) train_env"
  have h0: "2 \<le> length ?argv \<and> read_json ?blank (?argv ! 1) = Some []"
    by (simp add: demo_train_env_def)
  have h1: "2 \<le> length ?argv \<and> read_json ?env (?argv ! 1) = Some unflagged_rows \<and>
    unflagged_rows \<noteq> [] \<and> import_error ?env = None \<and>
    card (set (map (\<lambda>row. py_bool (important row)) unflagged_rows)) < 2"
    by (simp add: demo_train_env_def unflagged_rows_def py_bool_def)
  have first: "py_bool (important (hd unflagged_rows)) = False"
    by (simp add: unflagged_rows_def py_bool_def)
  from train_important_no_index_error [of ?blank ?argv] h0
  have empty: "status (train_important_main ?blank ?argv) \<noteq> Inl IndexError"
    "train_important_main ?blank ?argv = exit_error ''No samples'' 1"
    by blast+
  from train_important_no_index_error [of ?env ?argv unflagged_rows] h1
  have degenerate: "status (train_important_main ?env ?argv) \<noteq> Inl IndexError"
    "py_get (map (\<lambda>row. py_bool (important row)) unflagged_rows) 0
       = Inr (py_bool (important (hd unflagged_rows)))"
    "train_important_main ?env ?argv =
        \<lparr>stdout = [JObj [(''samples'', JInt (int (length unflagged_rows))),
                         (''skipped'', JBool True),
                         (''reason'', JStr (''Need both True and False labels to train, got only ''
                                            @ str_bool (py_bool (important (hd unflagged_rows)))))]],
         stderr = [], written = [], status = Inr 0\<rparr>"
    by blast+
  have len: "int (length unflagged_rows) = 2"
    by (simp add: unflagged_rows_def)
  from empty degenerate show ?thesis
    by (simp add: first len str_bool_def)
qed

section \<open>Importance inference: extraction, threshold and rounding\<close>

lemma round_half_even_close: "\<bar>of_int (round_half_even x) - x\<bar> \<le> 1 / 2"
proof -
  have "of_int \<lfloor>x\<rfloor> \<le> x" and "x < of_int \<lfloor>x\<rfloor> + 1"
    by linarith+
  then show ?thesis
    by (auto simp: round_half_even_def Let_def)
qed

lemma py_round_multiple: "\<exists>k::int. py_round x n = of_int k / 10 ^ n"
  unfolding py_round_def by blast

lemma py_round_close: "\<bar>py_round x n - x\<bar> \<le> 1 / (2 * 10 ^ n)"
proof -
  let ?s = "10 ^ n :: real"
  have pos: "0 < ?s" by simp
  have "py_round x n - x = (of_int (round_half_even (x * ?s)) - x * ?s) / ?s"
    by (simp add: py_round_def diff_divide_distrib)
  then have "\<bar>py_round x n - x\<bar> = \<bar>of_int (round_half_even (x * ?s)) - x * ?s\<bar> / ?s"
    using pos by (simp add: abs_divide)
  also have "\<dots> \<le> (1 / 2) / ?s"
    using round_half_even_close [of "x * ?s"] pos by (intro divide_right_mono) simp_all
  finally show ?thesis by simp
qed



lemma infer_important_main_report:
  assumes args: "3 \<le> length argv"
    and deps: "infer_import_error env = None"
    and loaded: "load_pickle env (argv ! 1) = Some art"
    and clf: "classifier art = Some clf"
    and emb: "embed env (case embedder_name art of None \<Rightarrow> default_model | Some n \<Rightarrow> n)
                [argv ! 2] = Some embedding"
    and pred: "predict_proba clf embedding = Some (proba # others)"
    and p: "p_important_of proba = Inr p"
  shows "infer_important_main env argv =
      \<lparr>stdout = [JObj [(''important'', JBool (1 / 2 \<le> p)),
                       (''probability'', JFloat (py_round p 4))]],
       stderr = [], written = [], status = Inr 0\<rparr>"
proof -
  have arg1: "py_get argv 1 = Inr (argv ! 1)" and arg2: "py_get argv 2 = Inr (argv ! 2)"
    using args by (simp_all add: py_get_def)
  show ?thesis
    using args
    by (simp add: infer_important_main_def arg1 arg2 deps loaded clf emb pred p
        py_get_def Let_def del: One_nat_def)
qed

text \<open>
  Claim C2.  When \<open>infer_important.py\<close> gets a probability vector with at least one
  entry from the classifier, the probability of "important" is entry 1 if the vector has
  more than one entry and entry 0 if it has exactly one; the printed \<open>important\<close> flag
  is true exactly when that probability is at least \<open>0.5\<close>; and the printed
  \<open>probability\<close> is that probability rounded to four decimals: a whole number of
  ten-thousandths, at most half a ten-thousandth away from it.
\<close>

theorem importance_report:
  assumes args: "3 \<le> length argv"
    and deps: "infer_import_error env = None"
    and loaded: "load_pickle env (argv ! 1) = Some art"
    and clf: "classifier art = Some clf"
    and emb: "embed env (case embedder_name art of None \<Rightarrow> default_model | Some n \<Rightarrow> n)
                [argv ! 2] = Some embedding"
    and pred: "predict_proba clf embedding = Some (proba # others)"
    and entries: "1 \<le> length proba"
  shows "\<exists>p r.
    (1 < length proba \<longrightarrow> p = proba ! 1) \<and>
    (length proba = 1 \<longrightarrow> p = proba ! 0) \<and>
    infer_important_main env argv =
      \<lparr>stdout = [JObj [(''important'', JBool (1 / 2 \<le> p)), (''probability'', JFloat r)]],
       stderr = [], written = [], status = Inr 0\<rparr> \<and>
    r = py_round p 4 \<and> (\<exists>k::int. r = of_int k / 10 ^ 4) \<and> \<bar>r - p\<bar> \<le> 1 / 20000"
proof -
  let ?p = "if 1 < length proba then proba ! 1 else proba ! 0"
  have p: "p_important_of proba = Inr ?p"
    using entries by (simp add: p_important_of_def py_get_def)
  have run: "infer_important_main env argv =
      \<lparr>stdout = [JObj [(''important'', JBool (1 / 2 \<le> ?p)),
                       (''probability'', JFloat (py_round ?p 4))]],
       stderr = [], written = [], status = Inr 0\<rparr>"
    using infer_important_main_report [OF args deps loaded clf emb pred p] .
  have sel: "(1 < length proba \<longrightarrow> ?p = proba ! 1) \<and> (length proba = 1 \<longrightarrow> ?p = proba ! 0)"
    by simp
  have close: "\<bar>py_round ?p 4 - ?p\<bar> \<le> 1 / 20000"
    using py_round_close [of ?p 4] by simp
  from sel run py_round_multiple [of ?p 4] close show ?thesis by blast
qed

theorem importance_report_witness:
  "infer_important_main (demo_infer_env (demo_importance_artifact [3 / 10, 7 / 10]))
     [''infer_important.py'', ''model.pkl'', ''invoice due''] =
   \<lparr>stdout = [JObj [(''important'', JBool True), (''probability'', JFloat (7 / 10))]],
    stderr = [], written = [], status = Inr 0\<rparr>"
proof -
  let ?argv = "[''infer_important.py'', ''model.pkl'', ''invoice due'']"
  let ?art = "demo_importance_artifact [3 / 10, 7 / 10]"
  let ?env = "demo_infer_env ?art :: (bool, real list) infer_env"
  let ?clf = "demo_classifier [False, True] [3 / 10, 7 / 10] :: (bool, real list) classifier"
  have h1: "3 \<le> length ?argv" by simp
  have h2: "infer_import_error ?env = None" by (simp add: demo_infer_env_def)
  have h3: "load_pickle ?env (?argv ! 1) = Some ?art" by (simp add: demo_infer_env_def)
  have h4: "classifier ?art = Some ?clf" by (simp add: demo_importance_artifact_def)
  have h5: "embed ?env (case embedder_name ?art of None \<Rightarrow> default_model | Some n \<Rightarrow> n)
              [?argv ! 2] = Some [[11]]"
    by (simp add: demo_infer_env_def demo_importance_artifact_def)
  have h6: "predict_proba ?clf [[11]] = Some ([3 / 10, 7 / 10] # [])"
    by (simp add: demo_classifier_def)
  have h7: "1 \<le> length [3 / 10, 7 / 10 :: real]" by simp
  from importance_report [OF h1 h2 h3 h4 h5 h6 h7] obtain p r where
    sel: "1 < length [3 / 10, 7 / 10 :: real] \<longrightarrow> p = [3 / 10, 7 / 10] ! 1"
    and run: "infer_important_main ?env ?argv =
      \<lparr>stdout = [JObj [(''important'', JBool (1 / 2 \<le> p)), (''probability'', JFloat r)]],
       stderr = [], written = [], status = Inr 0\<rparr>"
    and r: "r = py_round p 4"
    by (elim exE conjE) (rule that, assumption+)
  from sel have p: "p = 7 / 10" by simp
  have "r = 7 / 10"
    by (simp add: r p py_round_def round_half_even_def Let_def)
  with run p show ?thesis by simp
qed




section \<open>Router training: the catalog, the degenerate guard and the artifact\<close>

lemma router_label_list_props:
  "sorted (router_label_list data)"
  "distinct (router_label_list data)"
  "set (router_label_list data) = set (router_targets data)"
  "length (router_label_list data) = card (set (router_targets data))"
  by (simp_all add: router_label_list_def)

lemma router_label_list_mset:
  "mset (router_targets data) = mset (router_targets data') \<Longrightarrow>
   router_label_list data = router_label_list data'"
  using mset_eq_setD [of "router_targets data" "router_targets data'"]
  by (simp add: router_label_list_def)

lemma router_targets_nonempty: "data \<noteq> [] \<Longrightarrow> 0 < card (set (router_targets data))"
  by (simp add: router_targets_def card_gt_0_iff)

lemma str_nat_1: "str_nat 1 = ''1''"
  by code_simp

lemma train_label_router_written:
  assumes "(path, art) \<in> set (written (train_label_router_main env argv))"
  shows "\<exists>data X clf. read_json env (argv ! 1) = Some data \<and>
           fit env X (router_targets data) = Some clf \<and>
           classifier art = Some clf \<and>
           label_list art = Some (router_label_list data)"
proof (cases "length argv < 2")
  case True
  with assms show ?thesis
    by (simp add: train_label_router_main_def exit_error_def)
next
  case False
  then have arg1: "py_get argv 1 = Inr (argv ! 1)" by (simp add: py_get_def)
  from assms False show ?thesis
    by (auto simp: train_label_router_main_def arg1 exit_error_def uncaught_def Let_def
        split: option.splits if_splits sum.splits simp del: One_nat_def)
qed

lemma demo_router_rows_catalog:
  "router_label_list demo_router_rows = [''auth'', ''billing'', ''ui'']"
  "router_label_list demo_router_rows_permuted = [''auth'', ''billing'', ''ui'']"
  by code_simp+

lemma demo_router_rows_nonempty:
  "demo_router_rows \<noteq> []" "demo_router_rows_permuted \<noteq> []"
  by (simp_all add: demo_router_rows_def demo_router_rows_permuted_def)

lemma demo_router_run:
  "\<exists>art. written (train_label_router_main
                (demo_train_env demo_router_rows :: (router_row, string, real list) train_env)
                [''train_label_router.py'', ''data.json'']) = [(''./label_router_model.pkl'', art)]"
  by (simp add: train_label_router_main_def demo_train_env_def py_get_def
      demo_router_rows_catalog Let_def demo_router_rows_nonempty)

lemma demo_router_run_permuted:
  "\<exists>art. written (train_label_router_main
                (demo_train_env demo_router_rows_permuted :: (router_row, string, real list) train_env)
                [''train_label_router.py'', ''data.json'', ''out.pkl'']) = [(''out.pkl'', art)]"
  by (simp add: train_label_router_main_def demo_train_env_def py_get_def
      demo_router_rows_catalog Let_def demo_router_rows_nonempty)

text \<open>
  Claim C4.  When \<open>train_label_router.py\<close> is started with a data file that holds a
  non-empty sample list with fewer than two distinct target labels, and its
  dependencies import, it prints a result with \<open>skipped: true\<close> and \<open>labels: 1\<close>,
  writes no artifact and exits with code 0.
\<close>

theorem train_label_router_degenerate_skipped:
  assumes args: "2 \<le> length argv"
    and datafile: "read_json env (argv ! 1) = Some data"
    and nonempty: "data \<noteq> []"
    and deps: "import_error env = None"
    and degenerate: "card (set (router_targets data)) < 2"
  shows "train_label_router_main env argv =
      \<lparr>stdout = [JObj [(''samples'', JInt (int (length data))),
                       (''labels'', JInt 1),
                       (''skipped'', JBool True),
                       (''reason'', JStr ''Need at least 2 distinct labels to train, got 1'')]],
       stderr = [], written = [], status = Inr 0\<rparr>"
proof -
  have "card (set (router_targets data)) = 1"
    using router_targets_nonempty [OF nonempty] degenerate by simp
  then have len: "length (router_label_list data) = 1"
    by (simp add: router_label_list_props(4))
  have arg1: "py_get argv 1 = Inr (argv ! 1)"
    using args by (simp add: py_get_def)
  show ?thesis
    using args nonempty
    by (simp add: train_label_router_main_def arg1 datafile deps len str_nat_1 Let_def
        del: One_nat_def)
qed


theorem train_label_router_degenerate_skipped_witness:
  "train_label_router_main (demo_train_env same_label_rows)
     [''train_label_router.py'', ''data.json''] =
   \<lparr>stdout = [JObj [(''samples'', JInt 2),
                    (''labels'', JInt 1),
                    (''skipped'', JBool True),
                    (''reason'', JStr ''Need at least 2 distinct labels to train, got 1'')]],
    stderr = [], written = [], status = Inr 0\<rparr>"
proof -
  let ?argv = "[''train_label_router.py'', ''data.json'']"
  let ?env = "demo_train_env same_label_rows :: (router_row, string, real list) train_env"
  have h1: "2 \<le> length ?argv" by simp
  have h2: "read_json ?env (?argv ! 1) = Some same_label_rows"
    by (simp add: demo_train_env_def)
  have h3: "same_label_rows \<noteq> []" by (simp add: same_label_rows_def)
  have h4: "import_error ?env = None" by (simp add: demo_train_env_def)
  have h5: "card (set (router_targets same_label_rows)) < 2"
    by (simp add: router_targets_def same_label_rows_def or_else_def)
  from train_label_router_degenerate_skipped [OF h1 h2 h3 h4 h5]
  show ?thesis by (simp add: same_label_rows_def)
qed

text \<open>
  Claim C5.  Two training runs whose sample lists carry the same multiset of target
  labels (in particular, two orderings of the same samples) write artifacts with the
  same \<open>label_list\<close>, and that list is the sorted sequence of the distinct target
  labels.
\<close>

theorem label_catalog_deterministic:
  assumes "read_json env (argv ! 1) = Some data"
    and "read_json env' (argv' ! 1) = Some data'"
    and "mset (router_targets data) = mset (router_targets data')"
    and "(path, art) \<in> set (written (train_label_router_main env argv))"
    and "(path', art') \<in> set (written (train_label_router_main env' argv'))"
  shows "label_list art = label_list art' \<and>
         (\<exists>L. label_list art = Some L \<and> sorted L \<and> distinct L \<and>
              set L = set (router_targets data))"
proof -
  from train_label_router_written [OF assms(4)] assms(1)
  have a: "label_list art = Some (router_label_list data)" by auto
  from train_label_router_written [OF assms(5)] assms(2)
  have b: "label_list art' = Some (router_label_list data')" by auto
  from a b router_label_list_mset [OF assms(3)] router_label_list_props [of data]
  show ?thesis by simp
qed

theorem label_catalog_deterministic_witness:
  "\<exists>art art'.
     (''./label_router_model.pkl'', art) \<in> set (written (train_label_router_main
        (demo_train_env demo_router_rows :: (router_row, string, real list) train_env)
        [''train_label_router.py'', ''data.json''])) \<and>
     (''out.pkl'', art') \<in> set (written (train_label_router_main
        (demo_train_env demo_router_rows_permuted :: (router_row, string, real list) train_env)
        [''train_label_router.py'', ''data.json'', ''out.pkl''])) \<and>
     label_list art = Some [''auth'', ''billing'', ''ui''] \<and>
     label_list art' = Some [''auth'', ''billing'', ''ui'']"
proof -
  let ?argv = "[''train_label_router.py'', ''data.json'']"
  let ?argv' = "[''train_label_router.py'', ''data.json'', ''out.pkl'']"
  let ?env = "demo_train_env demo_router_rows :: (router_row, string, real list) train_env"
  let ?env' = "demo_train_env demo_router_rows_permuted
                 :: (router_row, string, real list) train_env"
  from demo_router_run obtain art where
    w: "written (train_label_router_main ?env ?argv) = [(''./label_router_model.pkl'', art)]"
    by blast
  from demo_router_run_permuted obtain art' where
    w': "written (train_label_router_main ?env' ?argv') = [(''out.pkl'', art')]"
    by blast
  have h1: "read_json ?env (?argv ! 1) = Some demo_router_rows"
    by (simp add: demo_train_env_def)
  have h2: "read_json ?env' (?argv' ! 1) = Some demo_router_rows_permuted"
    by (simp add: demo_train_env_def)
  have h3: "mset (router_targets demo_router_rows)
              = mset (router_targets demo_router_rows_permuted)"
    by (simp add: router_targets_def demo_router_rows_def demo_router_rows_permuted_def
        or_else_def)
  have h4: "(''./label_router_model.pkl'', art)
              \<in> set (written (train_label_router_main ?env ?argv))"
    by (simp add: w)
  have h5: "(''out.pkl'', art') \<in> set (written (train_label_router_main ?env' ?argv'))"
    by (simp add: w')
  from label_catalog_deterministic [OF h1 h2 h3 h4 h5] obtain L where
    same: "label_list art = label_list art'"
    and L: "label_list art = Some L" "sorted L" "distinct L"
      "set L = set (router_targets demo_router_rows)"
    by blast
  from L(4) have "set L = set (router_label_list demo_router_rows)"
    by (simp add: router_label_list_props(3))
  with L(2,3) have "L = router_label_list demo_router_rows"
    using router_label_list_props(1,2) [of demo_router_rows]
    by (intro sorted_distinct_set_unique) simp_all
  then have "L = [''auth'', ''billing'', ''ui'']"
    by (simp add: demo_router_rows_catalog)
  with L(1) same h4 h5 show ?thesis by auto
qed

text \<open>
  Claim C8.  Given a classifier library whose \<open>fit\<close> learns no class beyond the labels
  it is handed, every artifact written by \<open>train_label_router.py\<close> holds a classifier and
  a \<open>label_list\<close>, and every class of the classifier is a member of that \<open>label_list\<close>.
\<close>

theorem classes_within_catalog:
  assumes contract: "\<And>X y c. fit env X y = Some c \<Longrightarrow> set (classes c) \<subseteq> set y"
    and produced: "(path, art) \<in> set (written (train_label_router_main env argv))"
  shows "\<exists>clf L. classifier art = Some clf \<and> label_list art = Some L \<and>
           set (classes clf) \<subseteq> set L"
proof -
  from train_label_router_written [OF produced] obtain data X clf where
    fitted: "fit env X (router_targets data) = Some clf"
    and c: "classifier art = Some clf"
    and l: "label_list art = Some (router_label_list data)"
    by blast
  from contract [OF fitted] have "set (classes clf) \<subseteq> set (router_label_list data)"
    by (simp add: router_label_list_props(3))
  with c l show ?thesis by blast
qed

theorem classes_within_catalog_witness:
  "\<exists>art clf L.
     (''./label_router_model.pkl'', art) \<in> set (written (train_label_router_main
        (demo_train_env demo_router_rows :: (router_row, string, real list) train_env)
        [''train_label_router.py'', ''data.json''])) \<and>
     classifier art = Some clf \<and> label_list art = Some L \<and> set (classes clf) \<subseteq> set L"
proof -
  let ?argv = "[''train_label_router.py'', ''data.json'']"
  let ?env = "demo_train_env demo_router_rows :: (router_row, string, real list) train_env"
  from demo_router_run obtain art where
    w: "written (train_label_router_main ?env ?argv) = [(''./label_router_model.pkl'', art)]"
    by blast
  have contract: "\<And>X y c. fit ?env X y = Some c \<Longrightarrow> set (classes c) \<subseteq> set y"
    by (auto simp: demo_train_env_def)
  have produced: "(''./label_router_model.pkl'', art)
                    \<in> set (written (train_label_router_main ?env ?argv))"
    by (simp add: w)
  have "\<exists>clf L. classifier art = Some clf \<and> label_list art = Some L \<and>
           set (classes clf) \<subseteq> set L"
  proof (rule classes_within_catalog)
    show "\<And>X y c. fit ?env X y = Some c \<Longrightarrow> set (classes c) \<subseteq> set y"
      by (rule contract)
    show "(''./label_router_model.pkl'', art)
            \<in> set (written (train_label_router_main ?env ?argv))"
      by (rule produced)
  qed
  with produced show ?thesis by blast
qed

section \<open>Inference: artifacts with a missing field\<close>

text \<open>
  An artifact without \<open>embedder_name\<close> is not rejected: \<open>infer_important.py\<close> reads the
  name with a default and reports as usual.
\<close>

theorem incomplete_artifact_counterexample:
  "embedder_name demo_nameless_artifact = None \<and>
   infer_important_main (demo_infer_env demo_nameless_artifact)
     [''infer_important.py'', ''model.pkl'', ''invoice due''] =
   \<lparr>stdout = [JObj [(''important'', JBool True), (''probability'', JFloat (7 / 10))]],
    stderr = [], written = [], status = Inr 0\<rparr>"
  by (simp add: infer_important_main_def demo_infer_env_def demo_nameless_artifact_def
      demo_classifier_def py_get_def p_important_of_def py_round_def round_half_even_def
      Let_def)

text \<open>
  Claim C7, as the scripts behave.  In both inference scripts, an artifact without
  \<open>classifier\<close> (or, for the router, without \<open>label_list\<close>) ends the run with an
  uncaught \<open>KeyError\<close> before anything is embedded or printed; an artifact without
  \<open>embedder_name\<close> is handled exactly like the same artifact with \<open>embedder_name\<close> set
  to the default model name.
\<close>

theorem incomplete_artifact_behaviour:
  "(3 \<le> length argv \<and> infer_import_error env = None \<and>
    load_pickle env (argv ! 1) = Some art \<and> classifier art = None \<longrightarrow>
      infer_important_main env argv = uncaught KeyError) \<and>
   (3 \<le> length argv \<and> load_pickle env (argv ! 1) = Some art \<and> embedder_name art = None \<longrightarrow>
      infer_important_main env argv =
      infer_important_main
        (env\<lparr>load_pickle := (\<lambda>p. Some (art\<lparr>embedder_name := Some default_model\<rparr>))\<rparr>) argv) \<and>
   (3 \<le> length argv' \<and> infer_import_error env' = None \<and>
    load_pickle env' (argv' ! 1) = Some art' \<and>
    (classifier art' = None \<or> label_list art' = None) \<longrightarrow>
      infer_label_router_main env' argv' = uncaught KeyError) \<and>
   (3 \<le> length argv' \<and> load_pickle env' (argv' ! 1) = Some art' \<and>
    embedder_name art' = None \<longrightarrow>
      infer_label_router_main env' argv' =
      infer_label_router_main
        (env'\<lparr>load_pickle := (\<lambda>p. Some (art'\<lparr>embedder_name := Some default_model\<rparr>))\<rparr>) argv')"
proof (intro conjI impI)
  assume "3 \<le> length argv \<and> infer_import_error env = None \<and>
    load_pickle env (argv ! 1) = Some art \<and> classifier art = None"
  then show "infer_important_main env argv = uncaught KeyError"
    by (simp add: infer_important_main_def py_get_def Let_def del: One_nat_def)
next
  assume "3 \<le> length argv \<and> load_pickle env (argv ! 1) = Some art \<and> embedder_name art = None"
  then show "infer_important_main env argv =
      infer_important_main
        (env\<lparr>load_pickle := (\<lambda>p. Some (art\<lparr>embedder_name := Some default_model\<rparr>))\<rparr>) argv"
    by (auto simp: infer_important_main_def py_get_def Let_def split: option.splits
        simp del: One_nat_def)
next
  assume "3 \<le> length argv' \<and> infer_import_error env' = None \<and>
    load_pickle env' (argv' ! 1) = Some art' \<and>
    (classifier art' = None \<or> label_list art' = None)"
  then show "infer_label_router_main env' argv' = uncaught KeyError"
    by (auto simp: infer_label_router_main_def py_get_def Let_def split: option.splits
        simp del: One_nat_def)
next
  assume "3 \<le> length argv' \<and> load_pickle env' (argv' ! 1) = Some art' \<and>
    embedder_name art' = None"
  then show "infer_label_router_main env' argv' =
      infer_label_router_main
        (env'\<lparr>load_pickle := (\<lambda>p. Some (art'\<lparr>embedder_name := Some default_model\<rparr>))\<rparr>) argv'"
    by (auto simp: infer_label_router_main_def py_get_def Let_def split: option.splits
        simp del: One_nat_def)
qed


theorem incomplete_artifact_behaviour_witness:
  "infer_important_main (demo_infer_env demo_headless_artifact)
     [''infer_important.py'', ''model.pkl'', ''invoice due''] = uncaught KeyError \<and>
   infer_important_main (demo_infer_env demo_nameless_artifact)
     [''infer_important.py'', ''model.pkl'', ''invoice due''] =
   infer_important_main
     ((demo_infer_env demo_nameless_artifact)
        \<lparr>load_pickle := (\<lambda>p. Some (demo_nameless_artifact\<lparr>embedder_name := Some default_model\<rparr>))\<rparr>)
     [''infer_important.py'', ''model.pkl'', ''invoice due''] \<and>
   infer_label_router_main (demo_infer_env demo_headless_artifact)
     [''infer_label_router.py'', ''model.pkl'', ''reset my password''] = uncaught KeyError \<and>
   infer_label_router_main (demo_infer_env demo_nameless_router_artifact)
     [''infer_label_router.py'', ''model.pkl'', ''reset my password''] =
   infer_label_router_main
     ((demo_infer_env demo_nameless_router_artifact)
        \<lparr>load_pickle := (\<lambda>p. Some (demo_nameless_router_artifact\<lparr>embedder_name := Some default_model\<rparr>))\<rparr>)
     [''infer_label_router.py'', ''model.pkl'', ''reset my password'']"
proof -
  let ?argv = "[''infer_important.py'', ''model.pkl'', ''invoice due'']"
  let ?argv' = "[''infer_label_router.py'', ''model.pkl'', ''reset my password'']"
  let ?headless = "demo_headless_artifact :: (bool, real list) artifact"
  let ?headless' = "demo_headless_artifact :: (string, real list) artifact"
  let ?nameless' = "demo_nameless_router_artifact"
  have a1: "3 \<le> length ?argv \<and> infer_import_error (demo_infer_env ?headless) = None \<and>
    load_pickle (demo_infer_env ?headless) (?argv ! 1) = Some ?headless \<and>
    classifier ?headless = None"
    by (simp add: demo_infer_env_def demo_headless_artifact_def)
  have a2: "3 \<le> length ?argv \<and>
    load_pickle (demo_infer_env demo_nameless_artifact) (?argv ! 1) = Some demo_nameless_artifact \<and>
    embedder_name demo_nameless_artifact = None"
    by (simp add: demo_infer_env_def demo_nameless_artifact_def)
  have a3: "3 \<le> length ?argv' \<and> infer_import_error (demo_infer_env ?headless') = None \<and>
    load_pickle (demo_infer_env ?headless') (?argv' ! 1) = Some ?headless' \<and>
    (classifier ?headless' = None \<or> label_list ?headless' = None)"
    by (simp add: demo_infer_env_def demo_headless_artifact_def)
  have a4: "3 \<le> length ?argv' \<and>
    load_pickle (demo_infer_env ?nameless') (?argv' ! 1) = Some ?nameless' \<and>
    embedder_name ?nameless' = None"
    by (simp add: demo_infer_env_def demo_nameless_router_artifact_def)
  from incomplete_artifact_behaviour
         [of ?argv "demo_infer_env ?headless" ?headless
             ?argv' "demo_infer_env ?headless'" ?headless'] a1 a3
  have k: "infer_important_main (demo_infer_env ?headless) ?argv = uncaught KeyError"
          "infer_label_router_main (demo_infer_env ?headless') ?argv' = uncaught KeyError"
    by blast+
  from incomplete_artifact_behaviour
         [of ?argv "demo_infer_env demo_nameless_artifact" demo_nameless_artifact
             ?argv' "demo_infer_env ?nameless'" ?nameless'] a2 a4
  have n: "infer_important_main (demo_infer_env demo_nameless_artifact) ?argv =
      infer_important_main
        ((demo_infer_env demo_nameless_artifact)
           \<lparr>load_pickle := (\<lambda>p. Some (demo_nameless_artifact\<lparr>embedder_name := Some default_model\<rparr>))\<rparr>)
        ?argv"
     "infer_label_router_main (demo_infer_env ?nameless') ?argv' =
      infer_label_router_main
        ((demo_infer_env ?nameless')
           \<lparr>load_pickle := (\<lambda>p. Some (?nameless'\<lparr>embedder_name := Some default_model\<rparr>))\<rparr>)
        ?argv'"
    by blast+
  from k n show ?thesis by blast
qed

end
